theory Spec2Isabelle
  imports Complex_Main
begin

section \<open>Numbers: numpy float64 values in exact arithmetic\<close>

text \<open>
  The planform routine of SUAVE (\<^verbatim>\<open>wing_segmented_planform.py\<close>) computes with numpy
  float64 values. A value is modelled as a finite real number or one of the three
  special values of IEEE 754. Finite arithmetic is exact (no rounding, no overflow);
  the special values arise as numpy produces them: a division of zero by zero is
  \<open>NaN\<close>, a division of a non-zero value by zero is an infinity, and so on. numpy
  reports these with a warning and goes on, so none of them is an exception. The sign of
  a zero is not tracked: a zero divisor counts as a positive zero. What is proved below is
  therefore proved of the routine in exact arithmetic; a float64 run agrees with it up to
  rounding, and exactly where no operation rounds.
\<close>

datatype np_float = Fin real | PInf | NInf | NaN

fun isnan :: "np_float \<Rightarrow> bool" where
  "isnan NaN = True"
| "isnan _ = False"

fun isfinite :: "np_float \<Rightarrow> bool" where
  "isfinite (Fin _) = True"
| "isfinite _ = False"

instantiation np_float :: "{zero, one, plus, uminus, minus, times, inverse}"
begin

definition zero_np_float :: np_float where
  "zero_np_float = Fin 0"

definition one_np_float :: np_float where
  "one_np_float = Fin 1"

fun plus_np_float :: "np_float \<Rightarrow> np_float \<Rightarrow> np_float" where
  "plus_np_float NaN _ = NaN"
| "plus_np_float _ NaN = NaN"
| "plus_np_float (Fin a) (Fin b) = Fin (a + b)"
| "plus_np_float PInf NInf = NaN"
| "plus_np_float NInf PInf = NaN"
| "plus_np_float PInf _ = PInf"
| "plus_np_float _ PInf = PInf"
| "plus_np_float NInf _ = NInf"
| "plus_np_float _ NInf = NInf"

fun uminus_np_float :: "np_float \<Rightarrow> np_float" where
  "uminus_np_float (Fin a) = Fin (- a)"
| "uminus_np_float PInf = NInf"
| "uminus_np_float NInf = PInf"
| "uminus_np_float NaN = NaN"

definition minus_np_float :: "np_float \<Rightarrow> np_float \<Rightarrow> np_float" where
  "minus_np_float x y = x + (- y)"

text \<open>The sign of a non-zero product or quotient with an infinity.\<close>

fun signed_inf :: "bool \<Rightarrow> np_float" where
  "signed_inf True = PInf"
| "signed_inf False = NInf"

fun times_np_float :: "np_float \<Rightarrow> np_float \<Rightarrow> np_float" where
  "times_np_float NaN _ = NaN"
| "times_np_float _ NaN = NaN"
| "times_np_float (Fin a) (Fin b) = Fin (a * b)"
| "times_np_float (Fin a) PInf = (if a = 0 then NaN else signed_inf (0 < a))"
| "times_np_float (Fin a) NInf = (if a = 0 then NaN else signed_inf (a < 0))"
| "times_np_float PInf (Fin b) = (if b = 0 then NaN else signed_inf (0 < b))"
| "times_np_float NInf (Fin b) = (if b = 0 then NaN else signed_inf (b < 0))"
| "times_np_float PInf PInf = PInf"
| "times_np_float NInf NInf = PInf"
| "times_np_float PInf NInf = NInf"
| "times_np_float NInf PInf = NInf"

fun divide_np_float :: "np_float \<Rightarrow> np_float \<Rightarrow> np_float" where
  "divide_np_float NaN _ = NaN"
| "divide_np_float _ NaN = NaN"
| "divide_np_float (Fin a) (Fin b) =
     (if b = 0 then (if a = 0 then NaN else signed_inf (0 < a)) else Fin (a / b))"
| "divide_np_float (Fin a) PInf = Fin 0"
| "divide_np_float (Fin a) NInf = Fin 0"
| "divide_np_float PInf (Fin b) = signed_inf (0 \<le> b)"
| "divide_np_float NInf (Fin b) = signed_inf (b < 0)"
| "divide_np_float _ _ = NaN"

definition inverse_np_float :: "np_float \<Rightarrow> np_float" where
  "inverse_np_float x = divide (Fin 1) x"

instance ..

end

text \<open>
  \<^verbatim>\<open>x**n\<close> for a small literal exponent, as repeated multiplication.
\<close>

fun np_power :: "np_float \<Rightarrow> nat \<Rightarrow> np_float" where
  "np_power x 0 = Fin 1"
| "np_power x (Suc 0) = x"
| "np_power x (Suc n) = x * np_power x n"

text \<open>
  \<^verbatim>\<open>np.cos\<close>, \<^verbatim>\<open>np.tan\<close> and \<^verbatim>\<open>np.arctan\<close>: the real functions on finite values;
  the cosine and the tangent of an infinity are \<open>NaN\<close>, the arctangent of an infinity is
  a quarter turn. No float64 is an odd multiple of \<open>\<pi>/2\<close>, so the value of the real
  tangent there, where it is undefined, is never that of a run.
\<close>

fun np_cos :: "np_float \<Rightarrow> np_float" where
  "np_cos (Fin a) = Fin (cos a)"
| "np_cos _ = NaN"

fun np_tan :: "np_float \<Rightarrow> np_float" where
  "np_tan (Fin a) = Fin (tan a)"
| "np_tan _ = NaN"

fun np_arctan :: "np_float \<Rightarrow> np_float" where
  "np_arctan (Fin a) = Fin (arctan a)"
| "np_arctan PInf = Fin (pi / 2)"
| "np_arctan NInf = Fin (- pi / 2)"
| "np_arctan NaN = NaN"

section \<open>Arrays\<close>

text \<open>
  A one-dimensional numpy array is a list. The slices \<^verbatim>\<open>a[1:]\<close>, \<^verbatim>\<open>a[:-1]\<close> and
  \<^verbatim>\<open>a[:-2]\<close> are \<open>tl\<close>, \<open>butlast\<close> and \<open>butlast \<circ> butlast\<close> (each is empty on an
  empty array, as the slice is). An elementwise operation of two arrays is \<open>map2\<close>: every
  pair of arrays the routine combines has the same length by construction. An operation
  with a scalar is \<open>map\<close>.
\<close>

fun np_sum :: "np_float list \<Rightarrow> np_float" where
  "np_sum [] = Fin 0"
| "np_sum (x # xs) = x + np_sum xs"

fun cumsum_from :: "np_float \<Rightarrow> np_float list \<Rightarrow> np_float list" where
  "cumsum_from acc [] = []"
| "cumsum_from acc (x # xs) = (acc + x) # cumsum_from (acc + x) xs"

definition np_cumsum :: "np_float list \<Rightarrow> np_float list" where
  "np_cumsum xs = (case xs of [] \<Rightarrow> [] | x # ys \<Rightarrow> x # cumsum_from x ys)"

text \<open>
  What the routine stores as the aerodynamic center is a numpy value: the array of three
  components when there is a panel, and a float64 scalar when there is none, since
  \<^verbatim>\<open>np.dot\<close> of two empty one-dimensional arrays is the scalar 0.
\<close>

datatype np_value = Scalar np_float | Array "np_float list"

datatype py_error = IndexError | TypeError

text \<open>\<^verbatim>\<open>np.dot(np.transpose(Cxys), As)\<close> for a list \<open>Cxys\<close> of arrays of three components.\<close>

definition np_dot_transpose :: "np_float list list \<Rightarrow> np_float list \<Rightarrow> np_value" where
  "np_dot_transpose Cxys As =
     (if Cxys = [] then Scalar (np_sum (map2 (*) [] As))
      else Array (map (\<lambda>k. np_sum (map2 (*) (map (\<lambda>c. c ! k) Cxys) As)) [0..<3]))"

fun np_value_divide :: "np_value \<Rightarrow> np_float \<Rightarrow> np_value" where
  "np_value_divide (Scalar x) d = Scalar (x / d)"
| "np_value_divide (Array xs) d = Array (map (\<lambda>x. x / d) xs)"

text \<open>
  \<^verbatim>\<open>v[i] = x\<close>: a float64 scalar does not support item assignment (TypeError); an array
  raises IndexError out of range.
\<close>

fun setitem :: "np_value \<Rightarrow> nat \<Rightarrow> np_float \<Rightarrow> py_error + np_value" where
  "setitem (Scalar x) i v = Inl TypeError"
| "setitem (Array xs) i v = (if i < length xs then Inr (Array (xs[i := v])) else Inl IndexError)"

text \<open>\<^verbatim>\<open>a[-1]\<close>: the last element, IndexError on an empty array.\<close>

definition getitem_last :: "np_float list \<Rightarrow> py_error + np_float" where
  "getitem_last xs = (if xs = [] then Inl IndexError else Inr (last xs))"

section \<open>The wing and its segments\<close>

text \<open>
  A segment carries the six attributes the routine reads; \<open>seg_quarter_chord\<close> is
  \<^verbatim>\<open>seg.sweeps.quarter_chord\<close>. The inputs are finite numbers.
\<close>

record segment =
  percent_span_location :: real
  twist :: real
  root_chord_percent :: real
  seg_quarter_chord :: real
  thickness_to_chord :: real
  dihedral_outboard :: real

text \<open>
  The wing: the three scalar inputs, the ordered segments, and the thirteen attributes
  the routine writes (\<^verbatim>\<open>wing.areas.reference\<close> is \<open>areas_reference\<close>, and so on;
  \<^verbatim>\<open>wing.taper\<close> and \<^verbatim>\<open>wing.thickness_to_chord\<close> are \<open>wing_taper\<close> and
  \<open>wing_thickness_to_chord\<close>).
\<close>

record wing =
  spans_projected :: real
  chords_root :: real
  symmetric :: bool
  Segments :: "segment list"
  areas_reference :: np_float
  areas_wetted :: np_float
  aspect_ratio :: np_float
  spans_total :: np_float
  chords_mean_geometric :: np_float
  chords_mean_aerodynamic :: np_float
  chords_tip :: np_float
  wing_taper :: np_float
  sweeps_quarter_chord :: np_float
  sweeps_leading_edge :: np_float
  wing_thickness_to_chord :: np_float
  aerodynamic_center :: np_value
  total_length :: np_float

section \<open>The planform routine\<close>

definition segment_centroid ::
  "np_float \<Rightarrow> np_float \<Rightarrow> np_float \<Rightarrow> np_float \<Rightarrow> np_float \<Rightarrow> np_float \<Rightarrow> np_float \<Rightarrow>
   np_float \<Rightarrow> np_float \<Rightarrow> np_float list" where
  "segment_centroid le_sweep seg_span dx dy dz taper A mac dihedral =
     (let cy = seg_span / Fin 6 * ((Fin 1 + Fin 2 * taper) / (Fin 1 + taper));
          cx = mac * Fin 0.25 + cy * np_tan le_sweep;
          cz = cy * np_tan dihedral
      in [cx + dx, cy + dy, cz + dz])"

text \<open>
  \<^verbatim>\<open>wing_segmented_planform\<close>, statement by statement: every local variable of the
  routine is a function of the wing, under the name it has in the source (\<open>span\<close>,
  \<open>RC\<close> and \<open>sym\<close> are \<open>wing_span\<close>, \<open>root_chord\<close> and \<open>symmetric\<close>; \<open>one_sym\<close> is the
  Python value \<^verbatim>\<open>1+sym\<close>). The list \<^verbatim>\<open>twists\<close> is filled and never read, and is
  left out.
\<close>

definition wing_span :: "wing \<Rightarrow> np_float" where
  "wing_span wing = Fin (spans_projected wing)"

definition root_chord :: "wing \<Rightarrow> np_float" where
  "root_chord wing = Fin (chords_root wing)"

definition one_sym :: "wing \<Rightarrow> np_float" where
  "one_sym wing = Fin (1 + of_bool (symmetric wing))"

definition span_locs :: "wing \<Rightarrow> np_float list" where
  "span_locs wing = map (\<lambda>seg. Fin (percent_span_location seg)) (Segments wing)"

definition sweeps :: "wing \<Rightarrow> np_float list" where
  "sweeps wing = map (\<lambda>seg. Fin (seg_quarter_chord seg)) (Segments wing)"

definition dihedrals :: "wing \<Rightarrow> np_float list" where
  "dihedrals wing = map (\<lambda>seg. Fin (dihedral_outboard seg)) (Segments wing)"

definition chords :: "wing \<Rightarrow> np_float list" where
  "chords wing = map (\<lambda>seg. Fin (root_chord_percent seg)) (Segments wing)"

definition t_cs :: "wing \<Rightarrow> np_float list" where
  "t_cs wing = map (\<lambda>seg. Fin (thickness_to_chord seg)) (Segments wing)"

subsection \<open>Basic calculations\<close>

definition semispan :: "wing \<Rightarrow> np_float" where
  "semispan wing = wing_span wing / one_sym wing"

definition lengths_ndim :: "wing \<Rightarrow> np_float list" where
  "lengths_ndim wing = map2 (-) (tl (span_locs wing)) (butlast (span_locs wing))"

definition lengths_dim :: "wing \<Rightarrow> np_float list" where
  "lengths_dim wing = map (\<lambda>l. l * semispan wing) (lengths_ndim wing)"

definition chords_dim :: "wing \<Rightarrow> np_float list" where
  "chords_dim wing = map (\<lambda>c. root_chord wing * c) (chords wing)"

definition tapers :: "wing \<Rightarrow> np_float list" where
  "tapers wing = map2 (/) (tl (chords wing)) (butlast (chords wing))"

subsection \<open>Areas, aspect ratio, spans and chords\<close>

definition As :: "wing \<Rightarrow> np_float list" where
  "As wing =
     map (\<lambda>a. root_chord wing * a)
       (map2 (-) (map2 (*) (lengths_dim wing) (butlast (chords wing)))
          (map (\<lambda>a. a / Fin 2)
             (map2 (*) (map2 (-) (butlast (chords wing)) (tl (chords wing)))
                (lengths_dim wing))))"

definition A_wets :: "wing \<Rightarrow> np_float list" where
  "A_wets wing =
     map2 (*) (map (\<lambda>t. Fin 2 * (Fin 1 + Fin 0.2 * t)) (butlast (t_cs wing))) (As wing)"

definition wet_area :: "wing \<Rightarrow> np_float" where
  "wet_area wing = np_sum (A_wets wing)"

definition ref_area :: "wing \<Rightarrow> np_float" where
  "ref_area wing = np_sum (As wing) * Fin 2"

definition AR :: "wing \<Rightarrow> np_float" where
  "AR wing = np_power (wing_span wing) 2 / ref_area wing"

definition lens :: "wing \<Rightarrow> np_float list" where
  "lens wing = map2 (/) (lengths_dim wing) (map np_cos (butlast (dihedrals wing)))"

definition total_len :: "wing \<Rightarrow> np_float" where
  "total_len wing = np_sum (lens wing) * one_sym wing"

definition mgc :: "wing \<Rightarrow> np_float" where
  "mgc wing = ref_area wing / wing_span wing"

subsection \<open>The mean aerodynamic chord\<close>

text \<open>
  \<open>integral_closed_form\<close> is \<^verbatim>\<open>integral\<close> as line 113 computes it, and \<open>integral\<close> is the
  array after the masked assignment of line 115, which replaces the entries that are
  \<open>NaN\<close>.
\<close>

definition integral_closed_form :: "wing \<Rightarrow> np_float list" where
  "integral_closed_form wing =
     (let A = butlast (chords_dim wing);
          B = map2 (/) (map2 (-) A (tl (chords_dim wing))) (map uminus (lengths_ndim wing));
          C = butlast (span_locs wing)
      in map2 (/)
           (map2 (-)
              (map (\<lambda>x. np_power x 3)
                 (map2 (+) A (map2 (*) B (map2 (-) (tl (span_locs wing)) C))))
              (map (\<lambda>x. np_power x 3)
                 (map2 (+) A (map2 (*) B (map2 (-) (butlast (span_locs wing)) C)))))
           (map (\<lambda>b. Fin 3 * b) B))"

definition integral :: "wing \<Rightarrow> np_float list" where
  "integral wing =
     (let A = butlast (chords_dim wing)
      in map (\<lambda>(v, a, l). if isnan v then np_power a 2 * l else v)
           (zip (integral_closed_form wing) (zip A (lengths_ndim wing))))"

definition panel_mac :: "wing \<Rightarrow> np_float list" where
  "panel_mac wing =
     map2 (/) (map (\<lambda>x. x * one_sym wing) (map2 (*) (integral wing) (lengths_dim wing)))
       (As wing)"

definition MAC :: "wing \<Rightarrow> np_float" where
  "MAC wing = (semispan wing * one_sym wing / ref_area wing) * np_sum (integral wing)"

subsection \<open>Effective taper, thickness and sweeps\<close>

definition lamda :: "wing \<Rightarrow> np_float" where
  "lamda wing = Fin 2 * mgc wing / root_chord wing - Fin 1"

definition ct :: "wing \<Rightarrow> np_float" where
  "ct wing = lamda wing * root_chord wing"

definition t_c :: "wing \<Rightarrow> np_float" where
  "t_c wing = np_sum (map2 (*) (As wing) (butlast (t_cs wing))) / (ref_area wing / Fin 2)"

definition r_offsets :: "wing \<Rightarrow> np_float list" where
  "r_offsets wing = map (\<lambda>c. c / Fin 4) (butlast (chords_dim wing))"

definition t_offsets :: "wing \<Rightarrow> np_float list" where
  "t_offsets wing = map (\<lambda>c. c / Fin 4) (tl (chords_dim wing))"

definition le_sweeps :: "wing \<Rightarrow> np_float list" where
  "le_sweeps wing =
     map np_arctan
       (map2 (/)
          (map2 (-)
             (map2 (+) (r_offsets wing)
                (map2 (*) (map np_tan (butlast (sweeps wing))) (lengths_dim wing)))
             (t_offsets wing))
          (lengths_dim wing))"

definition c_4_sweep :: "wing \<Rightarrow> np_float" where
  "c_4_sweep wing =
     np_arctan (np_sum (map2 (*) (lengths_ndim wing) (map np_tan (butlast (sweeps wing)))))"

definition le_sweep_total :: "wing \<Rightarrow> np_float" where
  "le_sweep_total wing =
     np_arctan (np_sum (map2 (*) (lengths_ndim wing) (map np_tan (le_sweeps wing))))"

subsection \<open>The aerodynamic center\<close>

definition dxs :: "wing \<Rightarrow> np_float list" where
  "dxs wing =
     np_cumsum
       (Fin 0 # map2 (*) (map np_tan (butlast (le_sweeps wing))) (butlast (lengths_dim wing)))"

definition dys :: "wing \<Rightarrow> np_float list" where
  "dys wing = np_cumsum (Fin 0 # butlast (lengths_dim wing))"

definition dzs :: "wing \<Rightarrow> np_float list" where
  "dzs wing =
     np_cumsum
       (Fin 0 #
        map2 (*) (map np_tan (butlast (butlast (dihedrals wing)))) (butlast (lengths_dim wing)))"

text \<open>
  The loop over \<^verbatim>\<open>range(len(lengths_dim))\<close>: with \<open>N\<close> segments every array it reads
  has \<open>N - 1\<close> entries (\<open>dihedrals\<close> has \<open>N\<close>), so every read is inside its array.
\<close>

definition Cxys :: "wing \<Rightarrow> np_float list list" where
  "Cxys wing =
     map (\<lambda>i. segment_centroid (le_sweeps wing ! i) (lengths_dim wing ! i * one_sym wing)
                (dxs wing ! i) (dys wing ! i) (dzs wing ! i) (tapers wing ! i) (As wing ! i)
                (panel_mac wing ! i) (dihedrals wing ! i))
       [0..<length (lengths_dim wing)]"

text \<open>The value of line 146, before the symmetric case overwrites its second component.\<close>

definition center_of_area :: "wing \<Rightarrow> np_value" where
  "center_of_area wing =
     np_value_divide (np_dot_transpose (Cxys wing) (As wing)) (ref_area wing / one_sym wing)"

subsection \<open>The routine\<close>

text \<open>
  The two places that can raise are the item assignment of the symmetric case and
  \<^verbatim>\<open>chords[-1]\<close>, in this order; then the thirteen results are written onto the wing,
  which is returned.
\<close>

definition wing_segmented_planform :: "wing \<Rightarrow> py_error + wing" where
  "wing_segmented_planform wing =
     (case (if symmetric wing then setitem (center_of_area wing) 1 (Fin 0)
            else Inr (center_of_area wing)) of
        Inl e \<Rightarrow> Inl e
      | Inr center \<Rightarrow>
          (case getitem_last (chords wing) of
             Inl e \<Rightarrow> Inl e
           | Inr chords_last \<Rightarrow>
               Inr (wing
                 \<lparr> areas_reference := ref_area wing,
                   areas_wetted := wet_area wing,
                   aspect_ratio := AR wing,
                   spans_total := total_len wing,
                   chords_mean_geometric := mgc wing,
                   chords_mean_aerodynamic := MAC wing,
                   chords_tip := ct wing,
                   wing_taper := lamda wing,
                   sweeps_quarter_chord := c_4_sweep wing,
                   sweeps_leading_edge := le_sweep_total wing,
                   wing_thickness_to_chord := t_c wing,
                   aerodynamic_center := center,
                   total_length :=
                     np_tan (le_sweep_total wing) * semispan wing
                     + chords_last * root_chord wing \<rparr>)))"

section \<open>Panels and the quantities of the specification\<close>

text \<open>
  \<open>N\<close> segments form \<open>N - 1\<close> panels: a panel is a pair of adjacent segments, its
  inboard and its outboard station. The specification names, for a panel, its span
  fraction, its span length and its trapezoid area, and for the wing its semispan.
\<close>

definition panels :: "wing \<Rightarrow> (segment \<times> segment) list" where
  "panels wing = zip (butlast (Segments wing)) (tl (Segments wing))"

definition half_span :: "wing \<Rightarrow> real" where
  "half_span wing = spans_projected wing / (1 + of_bool (symmetric wing))"

definition panel_span_fraction :: "segment \<times> segment \<Rightarrow> real" where
  "panel_span_fraction p = percent_span_location (snd p) - percent_span_location (fst p)"

definition panel_span_length :: "wing \<Rightarrow> segment \<times> segment \<Rightarrow> real" where
  "panel_span_length wing p = panel_span_fraction p * half_span wing"

definition panel_area :: "wing \<Rightarrow> segment \<times> segment \<Rightarrow> real" where
  "panel_area wing p =
     chords_root wing *
       (panel_span_length wing p * root_chord_percent (fst p)
        - (root_chord_percent (fst p) - root_chord_percent (snd p))
          * panel_span_length wing p / 2)"


text \<open>
  The sum over the panels of one component of the panel centroid times the panel area
  (component 0, 1, 2 for x, y, z).
\<close>

definition weighted_centroid :: "wing \<Rightarrow> nat \<Rightarrow> np_float" where
  "weighted_centroid wing k = np_sum (map2 (*) (map (\<lambda>c. c ! k) (Cxys wing)) (As wing))"




text \<open>
  The full-span description of a symmetric wing: not symmetric, the same projected span,
  and the stations of the half wing mirrored about the root, so that the span fractions
  run from one tip (0) over the root (1/2) to the other tip (1) with the same chords.
\<close>

definition full_span_equivalent :: "wing \<Rightarrow> wing" where
  "full_span_equivalent wing =
     wing \<lparr> symmetric := False,
            Segments :=
              map (\<lambda>seg. seg \<lparr> percent_span_location := (1 - percent_span_location seg) / 2 \<rparr>)
                (rev (tl (Segments wing)))
              @ map (\<lambda>seg. seg \<lparr> percent_span_location := (1 + percent_span_location seg) / 2 \<rparr>)
                  (Segments wing) \<rparr>"




section \<open>Example wings\<close>

text \<open>
  A station with no twist, and a wing whose thirteen results are still unset (zero).
\<close>

definition station :: "real \<Rightarrow> real \<Rightarrow> real \<Rightarrow> real \<Rightarrow> real \<Rightarrow> segment" where
  "station s c sweep t dihedral =
     \<lparr> percent_span_location = s, twist = 0, root_chord_percent = c,
       seg_quarter_chord = sweep, thickness_to_chord = t, dihedral_outboard = dihedral \<rparr>"

definition new_wing :: "real \<Rightarrow> real \<Rightarrow> bool \<Rightarrow> segment list \<Rightarrow> wing" where
  "new_wing b rc s segs =
     \<lparr> spans_projected = b, chords_root = rc, symmetric = s, Segments = segs,
       areas_reference = Fin 0, areas_wetted = Fin 0, aspect_ratio = Fin 0,
       spans_total = Fin 0, chords_mean_geometric = Fin 0, chords_mean_aerodynamic = Fin 0,
       chords_tip = Fin 0, wing_taper = Fin 0, sweeps_quarter_chord = Fin 0,
       sweeps_leading_edge = Fin 0, wing_thickness_to_chord = Fin 0,
       aerodynamic_center = Scalar (Fin 0), total_length = Fin 0 \<rparr>"

text \<open>
  The regression wing of the specification: span 10, root chord 1, symmetric, stations at
  0, 1/2 and 1 of the semispan with chord fractions 1, 3/5 and 3/10.
\<close>

definition regression_wing :: wing where
  "regression_wing =
     new_wing 10 1 True
       [station 0 1 0 (1/10) 0, station (1/2) (3/5) 0 (1/10) 0, station 1 (3/10) 0 (1/10) 0]"

text \<open>
  Wings of span 10 and root chord 1 with two stations, at 0 and 1: a rectangular wing, a
  wing of constant chord fraction 1/2, a wing with the chord fractions 1/2 and 1/4, a
  wing tapered from the root chord to half of it, and a
  rectangular wing whose inboard station has the dihedral \<open>d\<close>. Then the wings with one
  station and with none.
\<close>

definition rectangular_wing :: "bool \<Rightarrow> wing" where
  "rectangular_wing s = new_wing 10 1 s [station 0 1 0 (1/10) 0, station 1 1 0 (1/10) 0]"

definition half_chord_wing :: wing where
  "half_chord_wing =
     new_wing 10 1 True [station 0 (1/2) 0 (1/10) 0, station 1 (1/2) 0 (1/10) 0]"

definition half_root_wing :: wing where
  "half_root_wing =
     new_wing 10 1 True [station 0 (1/2) 0 (1/10) 0, station 1 (1/4) 0 (1/10) 0]"

definition tapered_wing :: "bool \<Rightarrow> wing" where
  "tapered_wing s = new_wing 10 1 s [station 0 1 0 (1/10) 0, station 1 (1/2) 0 (1/10) 0]"

definition dihedral_wing :: "real \<Rightarrow> wing" where
  "dihedral_wing d = new_wing 10 1 False [station 0 1 0 (1/10) d, station 1 1 0 (1/10) 0]"

definition one_station_wing :: "bool \<Rightarrow> wing" where
  "one_station_wing s = new_wing 10 1 s [station 0 1 0 (1/10) 0]"

definition no_station_wing :: "bool \<Rightarrow> wing" where
  "no_station_wing s = new_wing 10 1 s []"

text \<open>One result of a call: the field \<open>f\<close> of the wing it returns, nothing when it raises.\<close>

definition result_field :: "(wing \<Rightarrow> 'a) \<Rightarrow> py_error + wing \<Rightarrow> 'a option" where
  "result_field f r = (case r of Inl e \<Rightarrow> None | Inr w \<Rightarrow> Some (f w))"

text \<open>The symmetric rectangular wing with the results the routine writes onto it.\<close>

definition rectangular_wing_computed :: wing where
  "rectangular_wing_computed =
     \<lparr> spans_projected = 10, chords_root = 1, symmetric = True,
       Segments = [station 0 1 0 (1/10) 0, station 1 1 0 (1/10) 0],
       areas_reference = Fin 10, areas_wetted = Fin (51 / 5), aspect_ratio = Fin 10,
       spans_total = Fin 10, chords_mean_geometric = Fin 1, chords_mean_aerodynamic = Fin 1,
       chords_tip = Fin 1, wing_taper = Fin 1, sweeps_quarter_chord = Fin 0,
       sweeps_leading_edge = Fin 0, wing_thickness_to_chord = Fin (1 / 10),
       aerodynamic_center = Array [Fin (1 / 2), Fin 0, Fin 0], total_length = Fin 1 \<rparr>"

section \<open>Arithmetic of finite values\<close>

lemma Fin_minus [simp]: "Fin a - Fin b = Fin (a - b)"
  by (simp add: minus_np_float_def)

lemma Fin_divide [simp]: "b \<noteq> 0 \<Longrightarrow> Fin a / Fin b = Fin (a / b)"
  by simp

lemma np_sum_Fin: "np_sum (map (\<lambda>p. Fin (g p)) ps) = Fin (sum_list (map g ps))"
  by (induction ps) simp_all

lemma signed_inf_not_finite [simp]: "\<not> isfinite (signed_inf b)"
  by (cases b) simp_all

lemma signed_inf_times_zero [simp]: "signed_inf b * Fin 0 = NaN"
  by (cases b) simp_all

section \<open>Every panel array is a map over the panels\<close>

lemma map2_same: "map2 f (map g ps) (map h ps) = map (\<lambda>p. f (g p) (h p)) ps"
  by (induction ps) simp_all

lemma zip_same: "zip (map g ps) (map h ps) = map (\<lambda>p. (g p, h p)) ps"
  by (induction ps) simp_all

lemma butlast_map: "butlast (map f xs) = map f (butlast xs)"
  by (simp add: map_butlast)

lemma tl_map: "tl (map f xs) = map f (tl xs)"
  by (simp add: map_tl)

lemma map_fst_zip_fun:
  "length xs = length ys \<Longrightarrow> map (\<lambda>p. f (fst p)) (zip xs ys) = map f xs"
  by (induction xs ys rule: list_induct2) simp_all

lemma map_snd_zip_fun:
  "length xs = length ys \<Longrightarrow> map (\<lambda>p. f (snd p)) (zip xs ys) = map f ys"
  by (induction xs ys rule: list_induct2) simp_all

lemma inboard: "map f (butlast xs) = map (\<lambda>p. f (fst p)) (zip (butlast xs) (tl xs))"
  by (simp add: map_fst_zip_fun)

lemma outboard: "map f (tl xs) = map (\<lambda>p. f (snd p)) (zip (butlast xs) (tl xs))"
  by (simp add: map_snd_zip_fun)

lemma length_panels: "length (panels w) = length (Segments w) - 1"
  by (simp add: panels_def)

lemma span_locs_butlast:
  "butlast (span_locs w) = map (\<lambda>p. Fin (percent_span_location (fst p))) (panels w)"
  unfolding span_locs_def panels_def butlast_map by (rule inboard)

lemma span_locs_tl:
  "tl (span_locs w) = map (\<lambda>p. Fin (percent_span_location (snd p))) (panels w)"
  unfolding span_locs_def panels_def tl_map by (rule outboard)

lemma chords_butlast:
  "butlast (chords w) = map (\<lambda>p. Fin (root_chord_percent (fst p))) (panels w)"
  unfolding chords_def panels_def butlast_map by (rule inboard)

lemma chords_tl:
  "tl (chords w) = map (\<lambda>p. Fin (root_chord_percent (snd p))) (panels w)"
  unfolding chords_def panels_def tl_map by (rule outboard)


lemma dihedrals_butlast:
  "butlast (dihedrals w) = map (\<lambda>p. Fin (dihedral_outboard (fst p))) (panels w)"
  unfolding dihedrals_def panels_def butlast_map by (rule inboard)

lemma semispan_Fin: "semispan w = Fin (half_span w)"
  by (simp add: semispan_def wing_span_def one_sym_def half_span_def)

lemma lengths_ndim_panels: "lengths_ndim w = map (\<lambda>p. Fin (panel_span_fraction p)) (panels w)"
  by (simp add: lengths_ndim_def span_locs_butlast span_locs_tl map2_same
      panel_span_fraction_def)

lemma lengths_dim_panels: "lengths_dim w = map (\<lambda>p. Fin (panel_span_length w p)) (panels w)"
  by (simp add: lengths_dim_def lengths_ndim_panels semispan_Fin panel_span_length_def)

lemma length_lengths_dim: "length (lengths_dim w) = length (Segments w) - 1"
  by (simp add: lengths_dim_panels length_panels)

lemma As_panels: "As w = map (\<lambda>p. Fin (panel_area w p)) (panels w)"
  by (simp add: As_def lengths_dim_panels chords_butlast chords_tl map2_same root_chord_def
      panel_area_def)

lemma ref_area_Fin: "ref_area w = Fin (2 * sum_list (map (panel_area w) (panels w)))"
  by (simp add: ref_area_def As_panels np_sum_Fin)

section \<open>When the routine returns, and what it writes\<close>

lemma Cxys_nonempty: "2 \<le> length (Segments w) \<Longrightarrow> Cxys w \<noteq> []"
  by (simp add: Cxys_def length_lengths_dim)

lemma center_of_area_Array:
  assumes "2 \<le> length (Segments w)"
  shows "center_of_area w =
    Array [weighted_centroid w 0 / (ref_area w / one_sym w),
           weighted_centroid w 1 / (ref_area w / one_sym w),
           weighted_centroid w 2 / (ref_area w / one_sym w)]"
  using Cxys_nonempty [OF assms]
  by (simp add: center_of_area_def np_dot_transpose_def weighted_centroid_def upt_rec
      numeral_3_eq_3 numeral_2_eq_2)

lemma planform_fields:
  assumes "wing_segmented_planform w = Inr w'"
  shows "areas_reference w' = ref_area w"
    and "areas_wetted w' = wet_area w"
    and "aspect_ratio w' = AR w"
    and "spans_total w' = total_len w"
    and "chords_mean_geometric w' = mgc w"
    and "chords_mean_aerodynamic w' = MAC w"
    and "wing_thickness_to_chord w' = t_c w"
    and "spans_projected w' = spans_projected w"
    and "chords_root w' = chords_root w"
    and "symmetric w' = symmetric w"
    and "Segments w' = Segments w"
  using assms by (auto simp: wing_segmented_planform_def split: sum.splits if_splits)

lemma planform_returns:
  assumes "2 \<le> length (Segments w)"
  shows "\<exists>w'. wing_segmented_planform w = Inr w'"
proof -
  have "chords w \<noteq> []" using assms by (auto simp: chords_def)
  then show ?thesis
    by (simp add: wing_segmented_planform_def center_of_area_Array [OF assms] getitem_last_def)
qed

lemma planform_center:
  assumes n: "2 \<le> length (Segments w)" and r: "wing_segmented_planform w = Inr w'"
  shows "aerodynamic_center w' =
     Array [weighted_centroid w 0 / (ref_area w / one_sym w),
            if symmetric w then Fin 0 else weighted_centroid w 1 / (ref_area w / one_sym w),
            weighted_centroid w 2 / (ref_area w / one_sym w)]"
  using r
  by (auto simp: wing_segmented_planform_def center_of_area_Array [OF n]
      split: sum.splits if_splits)

text \<open>Evaluating the routine on a concrete wing unfolds every local variable.\<close>

lemmas planform_defs =
  wing_span_def root_chord_def one_sym_def span_locs_def sweeps_def dihedrals_def chords_def
  t_cs_def semispan_def lengths_ndim_def lengths_dim_def chords_dim_def tapers_def As_def
  A_wets_def wet_area_def ref_area_def AR_def lens_def total_len_def mgc_def
  integral_closed_form_def integral_def panel_mac_def MAC_def lamda_def ct_def t_c_def
  r_offsets_def t_offsets_def le_sweeps_def c_4_sweep_def le_sweep_total_def dxs_def dys_def
  dzs_def Cxys_def center_of_area_def wing_segmented_planform_def segment_centroid_def
  np_dot_transpose_def np_cumsum_def getitem_last_def weighted_centroid_def result_field_def

lemmas example_defs =
  new_wing_def station_def rectangular_wing_def half_chord_wing_def tapered_wing_def
  dihedral_wing_def one_station_wing_def no_station_wing_def regression_wing_def
  full_span_equivalent_def rectangular_wing_computed_def half_root_wing_def

lemmas eval_simps =
  planform_defs example_defs Let_def numeral_2_eq_2 numeral_3_eq_3 upt_rec tan_arctan

lemma rectangular_wing_evaluated:
  "wing_segmented_planform (rectangular_wing True) = Inr rectangular_wing_computed"
  by (simp add: eval_simps)


section \<open>The reference area\<close>

text \<open>
  C7: with at least two segments the routine returns, and the reference area it writes is
  twice the sum of the trapezoid areas of the panels, whatever the symmetry flag: the flag
  enters only through the semispan inside the panel span length.
\<close>

theorem reference_area_twice_panel_areas:
  assumes "2 \<le> length (Segments w)"
  shows "\<exists>w'. wing_segmented_planform w = Inr w'
           \<and> areas_reference w' = Fin (2 * (\<Sum>p\<leftarrow>panels w. panel_area w p))"
  using planform_returns [OF assms] by (auto simp: planform_fields(1) ref_area_Fin)

lemma regression_panels:
  "panels regression_wing =
     [(station 0 1 0 (1/10) 0, station (1/2) (3/5) 0 (1/10) 0),
      (station (1/2) (3/5) 0 (1/10) 0, station 1 (3/10) 0 (1/10) 0)]"
  by (simp add: panels_def regression_wing_def new_wing_def)

theorem reference_area_twice_panel_areas_witness:
  "\<exists>w'. wing_segmented_planform regression_wing = Inr w' \<and> areas_reference w' = Fin (25 / 4)"
proof -
  have n: "2 \<le> length (Segments regression_wing)"
    by (simp add: regression_wing_def new_wing_def)
  have "2 * (\<Sum>p\<leftarrow>panels regression_wing. panel_area regression_wing p) = 25 / 4"
    unfolding regression_panels
    by (simp add: panel_area_def panel_span_length_def panel_span_fraction_def half_span_def
        station_def regression_wing_def new_wing_def)
  with reference_area_twice_panel_areas [OF n] show ?thesis by simp
qed

section \<open>The aerodynamic center\<close>

text \<open>
  C5: for a symmetric wing with at least two segments the routine returns, and the second
  component of the aerodynamic center it writes is exactly 0, whatever the sweeps and
  dihedrals (and whatever the value it overwrites, \<open>NaN\<close> included).
\<close>

theorem symmetric_center_y_zero:
  assumes "symmetric w" and "2 \<le> length (Segments w)"
  shows "\<exists>w' x z. wing_segmented_planform w = Inr w' \<and> aerodynamic_center w' = Array [x, Fin 0, z]"
proof -
  from planform_returns [OF assms(2)] obtain w' where r: "wing_segmented_planform w = Inr w'" ..
  from planform_center [OF assms(2) r] assms(1) show ?thesis using r by simp
qed

theorem symmetric_center_y_zero_witness:
  "symmetric regression_wing \<and> 2 \<le> length (Segments regression_wing) \<and>
   (\<exists>w' x z. wing_segmented_planform regression_wing = Inr w'
       \<and> aerodynamic_center w' = Array [x, Fin 0, z])"
proof -
  have s: "symmetric regression_wing" and n: "2 \<le> length (Segments regression_wing)"
    by (simp_all add: regression_wing_def new_wing_def)
  from symmetric_center_y_zero [OF s n] s n show ?thesis by simp
qed




section \<open>The total span\<close>

lemma total_len_panels:
  "total_len w =
     np_sum (map (\<lambda>p. Fin (panel_span_length w p) / Fin (cos (dihedral_outboard (fst p))))
               (panels w))
     * Fin (1 + of_bool (symmetric w))"
  by (simp add: total_len_def lens_def lengths_dim_panels dihedrals_butlast zip_same comp_def
      one_sym_def)

text \<open>
  C4, as amended: the total span is the sum over the panels of the panel span length
  divided by the cosine of the dihedral of the panel's inboard station, times
  \<open>1 + is_symmetric\<close>. Every panel has a dihedral value of its own: with \<open>N\<close> segments the
  \<open>N - 1\<close> values of all stations but the last are used, and the outermost panel uses the
  dihedral of the second-to-last station.
\<close>

theorem total_span_per_panel_dihedral:
  assumes "2 \<le> length (Segments w)"
  shows "\<exists>w'. wing_segmented_planform w = Inr w' \<and>
           spans_total w' =
             np_sum (map (\<lambda>p. Fin (panel_span_length w p) / Fin (cos (dihedral_outboard (fst p))))
                       (panels w))
             * Fin (1 + of_bool (symmetric w))"
  using planform_returns [OF assms] by (auto simp: planform_fields(4) total_len_panels)

theorem total_span_per_panel_dihedral_witness:
  "2 \<le> length (Segments (dihedral_wing (pi / 3))) \<and>
   panels (dihedral_wing (pi / 3)) = [(station 0 1 0 (1/10) (pi / 3), station 1 1 0 (1/10) 0)] \<and>
   (\<exists>w'. wing_segmented_planform (dihedral_wing (pi / 3)) = Inr w' \<and> spans_total w' = Fin 20)"
proof -
  have n: "2 \<le> length (Segments (dihedral_wing (pi / 3)))"
    by (simp add: dihedral_wing_def new_wing_def)
  have p: "panels (dihedral_wing (pi / 3))
      = [(station 0 1 0 (1/10) (pi / 3), station 1 1 0 (1/10) 0)]"
    by (simp add: panels_def dihedral_wing_def new_wing_def)
  have "np_sum (map (\<lambda>p. Fin (panel_span_length (dihedral_wing (pi / 3)) p)
                          / Fin (cos (dihedral_outboard (fst p))))
                  (panels (dihedral_wing (pi / 3))))
          * Fin (1 + of_bool (symmetric (dihedral_wing (pi / 3)))) = Fin 20"
    unfolding p
    by (simp add: panel_span_length_def panel_span_fraction_def half_span_def station_def
        dihedral_wing_def new_wing_def cos_60)
  with total_span_per_panel_dihedral [OF n] n p show ?thesis by simp
qed

text \<open>
  The claim as stated has only \<open>N - 2\<close> dihedral values used. A wing of two segments
  would then have a total span that no dihedral value enters; but the dihedral of its
  first station does: without dihedral the total span is 10, and with a dihedral of 60
  degrees at the first station it is 20.
\<close>

theorem total_span_dihedral_counterexample:
  "length (Segments (dihedral_wing 0)) = 2 \<and> length (Segments (dihedral_wing (pi / 3))) = 2 \<and>
   result_field spans_total (wing_segmented_planform (dihedral_wing 0)) = Some (Fin 10) \<and>
   result_field spans_total (wing_segmented_planform (dihedral_wing (pi / 3))) = Some (Fin 20)"
  by (simp add: eval_simps cos_60)

section \<open>Fewer than two segments\<close>

lemma panels_short: "length (Segments w) < 2 \<Longrightarrow> panels w = []"
  by (cases "Segments w") (simp_all add: panels_def)

lemma short_arrays:
  assumes "length (Segments w) < 2"
  shows "As w = []" and "lengths_dim w = []" and "lengths_ndim w = []"
  by (simp_all add: As_panels lengths_dim_panels lengths_ndim_panels panels_short [OF assms])

lemma short_ref_area: "length (Segments w) < 2 \<Longrightarrow> ref_area w = Fin 0"
  by (simp add: ref_area_Fin panels_short)

lemma short_AR: "length (Segments w) < 2 \<Longrightarrow> \<not> isfinite (AR w)"
  by (simp add: AR_def short_ref_area wing_span_def numeral_2_eq_2)

lemma short_integral: "length (Segments w) < 2 \<Longrightarrow> integral w = []"
  by (simp add: integral_def integral_closed_form_def short_arrays Let_def)

lemma short_MAC: "length (Segments w) < 2 \<Longrightarrow> isnan (MAC w)"
  by (simp add: MAC_def short_ref_area short_integral semispan_Fin one_sym_def)

lemma short_center: "length (Segments w) < 2 \<Longrightarrow> center_of_area w = Scalar NaN"
  by (simp add: center_of_area_def np_dot_transpose_def Cxys_def short_arrays short_ref_area
      one_sym_def)

text \<open>
  C9: the routine checks nothing and has no error of its own. With fewer than two
  segments it runs on with empty panel arrays: the reference area is 0, the aspect ratio
  is a division by zero, and the mean aerodynamic chord and the center are \<open>NaN\<close>. When
  the wing is not symmetric and has one segment, it returns these values. Otherwise the
  only errors are the ones numpy and Python raise on the way: the item assignment into the
  scalar center of a symmetric wing (a TypeError), and \<^verbatim>\<open>chords[-1]\<close> on a wing without
  segments (an IndexError).
\<close>

theorem too_few_segments:
  assumes "length (Segments w) < 2"
  shows "case wing_segmented_planform w of
           Inl e \<Rightarrow> (symmetric w \<and> e = TypeError)
                  \<or> (\<not> symmetric w \<and> Segments w = [] \<and> e = IndexError)
         | Inr w' \<Rightarrow> \<not> symmetric w \<and> length (Segments w) = 1 \<and> areas_reference w' = Fin 0
              \<and> \<not> isfinite (aspect_ratio w') \<and> isnan (chords_mean_aerodynamic w')
              \<and> aerodynamic_center w' = Scalar NaN"
proof (cases "symmetric w")
  case True
  then show ?thesis by (simp add: wing_segmented_planform_def short_center assms)
next
  case False
  show ?thesis
  proof (cases "Segments w = []")
    case True
    with False show ?thesis
      by (simp add: wing_segmented_planform_def short_center assms getitem_last_def chords_def)
  next
    case nonempty: False
    with assms have "length (Segments w) = 1" by (cases "Segments w") simp_all
    with False nonempty show ?thesis
      by (simp add: wing_segmented_planform_def short_center assms getitem_last_def chords_def
          short_ref_area short_AR short_MAC)
  qed
qed

theorem too_few_segments_witness:
  "length (Segments (one_station_wing False)) < 2 \<and>
   (\<exists>w'. wing_segmented_planform (one_station_wing False) = Inr w' \<and> areas_reference w' = Fin 0
      \<and> aspect_ratio w' = PInf \<and> chords_mean_aerodynamic w' = NaN
      \<and> aerodynamic_center w' = Scalar NaN) \<and>
   wing_segmented_planform (one_station_wing True) = Inl TypeError \<and>
   wing_segmented_planform (no_station_wing False) = Inl IndexError \<and>
   wing_segmented_planform (no_station_wing True) = Inl TypeError"
proof -
  have n: "length (Segments (one_station_wing False)) < 2"
    by (simp add: one_station_wing_def new_wing_def)
  have ns: "\<not> symmetric (one_station_wing False)" "Segments (one_station_wing False) \<noteq> []"
    by (simp_all add: one_station_wing_def new_wing_def)
  have "\<exists>w'. wing_segmented_planform (one_station_wing False) = Inr w'
          \<and> areas_reference w' = Fin 0 \<and> aerodynamic_center w' = Scalar NaN"
    using too_few_segments [OF n] ns by (auto split: sum.splits)
  then obtain w'
    where r: "wing_segmented_planform (one_station_wing False) = Inr w'"
      and a: "areas_reference w' = Fin 0" "aerodynamic_center w' = Scalar NaN"
    by blast
  from r have "aspect_ratio w' = PInf" "chords_mean_aerodynamic w' = NaN"
    by (auto simp: eval_simps)
  with r a n show ?thesis by (simp add: eval_simps)
qed

section \<open>The routine is a function of its inputs\<close>

lemma inputs_only:
  assumes "spans_projected v = spans_projected w" and "chords_root v = chords_root w"
    and "symmetric v = symmetric w" and "Segments v = Segments w"
  shows "center_of_area v = center_of_area w" and "chords v = chords w"
    and "ref_area v = ref_area w" and "wet_area v = wet_area w" and "AR v = AR w"
    and "total_len v = total_len w" and "mgc v = mgc w" and "MAC v = MAC w" and "ct v = ct w"
    and "lamda v = lamda w" and "c_4_sweep v = c_4_sweep w"
    and "le_sweep_total v = le_sweep_total w" and "t_c v = t_c w"
    and "semispan v = semispan w" and "root_chord v = root_chord w"
proof -
  have a: "wing_span v = wing_span w" "root_chord v = root_chord w" "one_sym v = one_sym w"
    "span_locs v = span_locs w" "sweeps v = sweeps w" "dihedrals v = dihedrals w"
    "chords v = chords w" "t_cs v = t_cs w"
    using assms
    by (simp_all add: wing_span_def root_chord_def one_sym_def span_locs_def sweeps_def
        dihedrals_def chords_def t_cs_def)
  have b: "semispan v = semispan w" "lengths_ndim v = lengths_ndim w"
    "chords_dim v = chords_dim w" "tapers v = tapers w"
    by (simp_all add: semispan_def lengths_ndim_def chords_dim_def tapers_def a)
  have c: "lengths_dim v = lengths_dim w"
    by (simp add: lengths_dim_def b)
  have d: "As v = As w" by (simp add: As_def a c)
  have e: "ref_area v = ref_area w" "wet_area v = wet_area w"
    by (simp_all add: ref_area_def wet_area_def A_wets_def a d)
  have f: "integral v = integral w"
    by (simp add: integral_def integral_closed_form_def a b)
  have g: "le_sweeps v = le_sweeps w"
    by (simp add: le_sweeps_def r_offsets_def t_offsets_def a b c)
  have h: "Cxys v = Cxys w"
    by (simp add: Cxys_def dxs_def dys_def dzs_def panel_mac_def a b c d f g)
  have i: "mgc v = mgc w" by (simp add: mgc_def e a)
  have j: "lamda v = lamda w" by (simp add: lamda_def i a)
  show "center_of_area v = center_of_area w" by (simp add: center_of_area_def h d e a)
  show "chords v = chords w" by (rule a)
  show "ref_area v = ref_area w" "wet_area v = wet_area w" by (rule e)+
  show "AR v = AR w" by (simp add: AR_def a e)
  show "total_len v = total_len w" by (simp add: total_len_def lens_def a c)
  show "mgc v = mgc w" by (rule i)
  show "MAC v = MAC w" by (simp add: MAC_def a b e f)
  show "ct v = ct w" by (simp add: ct_def j a)
  show "lamda v = lamda w" by (rule j)
  show "c_4_sweep v = c_4_sweep w" by (simp add: c_4_sweep_def a b)
  show "le_sweep_total v = le_sweep_total w" by (simp add: le_sweep_total_def b g)
  show "t_c v = t_c w" by (simp add: t_c_def a d e)
  show "semispan v = semispan w" "root_chord v = root_chord w" by (rule b a)+
qed

text \<open>
  C8: the routine reads the projected span, the root chord, the symmetry flag and the
  segments, and writes none of them; every local variable is a function of these four.
  So a second call, on the wing the first call returned, returns that same wing: the
  thirteen results are written again with the same values.
\<close>

theorem planform_idempotent:
  assumes "wing_segmented_planform w = Inr w'"
  shows "wing_segmented_planform w' = Inr w'
     \<and> spans_projected w' = spans_projected w \<and> chords_root w' = chords_root w
     \<and> symmetric w' = symmetric w \<and> Segments w' = Segments w"
proof -
  note in_eq = planform_fields(8-11) [OF assms]
  note loc = inputs_only [OF in_eq]
  have "wing_segmented_planform w' = Inr w'"
    using assms
    by (auto simp: wing_segmented_planform_def loc in_eq split: sum.splits if_splits)
  with in_eq show ?thesis by simp
qed

theorem planform_idempotent_witness:
  "wing_segmented_planform (rectangular_wing True) = Inr rectangular_wing_computed \<and>
   wing_segmented_planform rectangular_wing_computed = Inr rectangular_wing_computed \<and>
   Segments rectangular_wing_computed = Segments (rectangular_wing True)"
  using planform_idempotent [OF rectangular_wing_evaluated]
  by (simp add: rectangular_wing_evaluated)

section \<open>Sums over the panels of a valid wing\<close>









section \<open>The wetted area\<close>






section \<open>The mean aerodynamic chord\<close>










section \<open>The straight trapezoid wing\<close>






section \<open>A symmetric wing and its full-span description\<close>

text \<open>
  C6 does not hold of the routine. The tapered wing, symmetric, has the reference area
  15/2, the aspect ratio 40/3 and the mean aerodynamic chord 7/9. Its full-span
  description (not symmetric, the same span, stations at 0, 1/2 and 1 with the chord
  fractions 1/2, 1 and 1/2) is the same planform, and the routine writes the reference
  area 15, the aspect ratio 20/3 and the mean aerodynamic chord 7/18: line 97 doubles the
  sum of the panel areas whatever the flag, where every other line scales by
  \<^verbatim>\<open>1+sym\<close>.
\<close>

theorem full_span_equivalent_differs:
  "Segments (full_span_equivalent (tapered_wing True))
     = [station 0 (1/2) 0 (1/10) 0, station (1/2) 1 0 (1/10) 0, station 1 (1/2) 0 (1/10) 0] \<and>
   symmetric (tapered_wing True) \<and> \<not> symmetric (full_span_equivalent (tapered_wing True)) \<and>
   spans_projected (full_span_equivalent (tapered_wing True)) = spans_projected (tapered_wing True) \<and>
   result_field (\<lambda>w. (areas_reference w, aspect_ratio w, chords_mean_aerodynamic w))
       (wing_segmented_planform (tapered_wing True))
     = Some (Fin (15 / 2), Fin (40 / 3), Fin (7 / 9)) \<and>
   result_field (\<lambda>w. (areas_reference w, aspect_ratio w, chords_mean_aerodynamic w))
       (wing_segmented_planform (full_span_equivalent (tapered_wing True)))
     = Some (Fin 15, Fin (20 / 3), Fin (7 / 18))"
  by (simp add: eval_simps)

end
